theory Spec2Isabelle
  imports Main "HOL-Library.AList"
begin

section \<open>Errors\<close>

text \<open>
  The Go code builds its errors with \<open>errors.New\<close> and \<open>fmt.Errorf\<close>. Each
  constructor below stands for one of these call sites; a wrapped error (\<open>%w\<close>) or an
  interpolated identifier (\<open>%s\<close>) is the constructor's argument. \<open>Error\<close> renders the
  message exactly as the Go \<open>Error()\<close> method does.
\<close>

datatype error =
    ErrEmptyID
  | ErrAlreadyExists string
  | ErrNoDefault
  | ErrNotFound string
  | ErrReadDataDir string
  | ErrSaveDefault string
  | ErrCreateDir string
  | ErrDatabase string
  | ErrGetDevice string
  | ErrConnect string
  | ErrLogout string
  | ErrAlreadyLoggedIn
  | ErrRequestQR string
  | ErrClientOutdated
  | ErrUnexpectedQREvent string
  | ErrQRTimeout
  | ErrPairPhoneUnavailable
  | ErrPairingCodeUnavailable
  | ErrNotConnected
  | ErrNotLoggedIn
  | ErrInvalidRecipient string
  | ErrNotUserJID
  | ErrEmptyUser
  | ErrSendFailed string
  | ErrMarshalState string
  | ErrWriteStateFile string

fun Error :: "error \<Rightarrow> string" where
  "Error ErrEmptyID = ''client ID cannot be empty''"
| "Error (ErrAlreadyExists i) = ''client with ID '' @ i @ '' already exists''"
| "Error ErrNoDefault = ''no default client set''"
| "Error (ErrNotFound i) = ''client '' @ i @ '' not found''"
| "Error (ErrReadDataDir e) = ''failed to read data directory: '' @ e"
| "Error (ErrSaveDefault e) = ''failed to save default client: '' @ e"
| "Error (ErrCreateDir e) = ''failed to create client directory: '' @ e"
| "Error (ErrDatabase e) = ''failed to connect to database: '' @ e"
| "Error (ErrGetDevice e) = ''failed to get device: '' @ e"
| "Error (ErrConnect e) = ''failed to connect: '' @ e"
| "Error (ErrLogout e) = ''failed to logout: '' @ e"
| "Error ErrAlreadyLoggedIn = ''already logged in''"
| "Error (ErrRequestQR e) = ''failed to request QR: '' @ e"
| "Error ErrClientOutdated =
     ''WhatsApp Web client outdated. Please update the whatsmeow library or try again later.''"
| "Error (ErrUnexpectedQREvent k) = ''unexpected QR event: '' @ k"
| "Error ErrQRTimeout = ''timeout waiting for QR code''"
| "Error ErrPairPhoneUnavailable =
     ''phone pairing is not available in the current library version, please use QR code authentication''"
| "Error ErrPairingCodeUnavailable =
     ''phone pairing is not available in the current library version''"
| "Error ErrNotConnected = ''not connected''"
| "Error ErrNotLoggedIn = ''not logged in''"
| "Error (ErrInvalidRecipient e) = ''invalid recipient: '' @ e"
| "Error ErrNotUserJID = ''invalid recipient: not a user JID''"
| "Error ErrEmptyUser = ''invalid recipient: empty user''"
| "Error (ErrSendFailed e) = ''failed to send message: '' @ e"
| "Error (ErrMarshalState e) = ''failed to marshal state: '' @ e"
| "Error (ErrWriteStateFile e) = ''failed to write state file: '' @ e"

section \<open>Client status and persistent state\<close>

text \<open>\<open>type ClientStatus string\<close> with its four constants.\<close>

type_synonym ClientStatus = string

definition StatusLoggedOut :: ClientStatus where
  "StatusLoggedOut = ''logged_out''"

definition StatusConnected :: ClientStatus where
  "StatusConnected = ''connected''"

definition StatusDisconnected :: ClientStatus where
  "StatusDisconnected = ''disconnected''"

definition StatusError :: ClientStatus where
  "StatusError = ''error''"

text \<open>
  \<open>ClientState\<close>, the snapshot that is returned to callers and written to
  \<open>state.json\<close>. Time stamps are natural numbers handed in by the caller of each
  operation (the value of \<open>time.Now()\<close>).
\<close>

record ClientState =
  StateID :: string
  Status :: ClientStatus
  LastActivity :: nat
  Connected :: bool
  LoggedIn :: bool
  PushName :: string
  PhoneNumber :: string
  ConnectionError :: string

section \<open>The protocol engine\<close>

text \<open>
  \<open>*whatsmeow.Client\<close> is an external library object. Its state is an arbitrary type
  \<open>'e\<close>, and the methods the gateway calls on it are the fields of \<open>engine\<close>: the two
  queries read the state, every other method returns the state it leaves behind together
  with its Go result (an error message, or \<open>None\<close> for \<open>nil\<close>). Every theorem below
  holds for all engines.
\<close>

record JID =
  User :: string
  Server :: string

definition DefaultUserServer :: string where
  "DefaultUserServer = ''s.whatsapp.net''"

record 'e engine =
  engIsConnected :: "'e \<Rightarrow> bool"
  engIsLoggedIn :: "'e \<Rightarrow> bool"
  engConnect :: "'e \<Rightarrow> string option \<times> 'e"
  engDisconnect :: "'e \<Rightarrow> 'e"
  engLogout :: "'e \<Rightarrow> string option \<times> 'e"
  engGetQRChannel :: "'e \<Rightarrow> string option \<times> 'e"
  engSendMessage :: "'e \<Rightarrow> JID \<Rightarrow> string \<Rightarrow> string option \<times> 'e"
  engStoreID :: "'e \<Rightarrow> JID option"
  engPushName :: "'e \<Rightarrow> string"
  ParseJID :: "string \<Rightarrow> string + JID"

text \<open>The state-changing engine methods, as they are recorded in a session's call log.\<close>

datatype engine_call =
    CallConnect
  | CallDisconnect
  | CallLogout
  | CallGetQRChannel
  | CallSendMessage JID string

section \<open>Client\<close>

text \<open>
  An unbuffered Go channel of strings, as far as a non-blocking send can observe it:
  whether a receiver is parked on it, and what has been handed over so far.
\<close>

record chan =
  parked :: bool
  delivered :: "string list"

definition make_chan :: chan where
  "make_chan = \<lparr>parked = False, delivered = []\<rparr>"

text \<open>
  The \<open>Client\<close> struct. \<open>client\<close> is the engine state (the device store and the
  database container are part of it). \<open>eventHandler\<close> tells whether a custom handler
  is set, and \<open>forwarded\<close> lists the events passed on to it. \<open>calls\<close> is not a Go
  field: it logs, in order, the state-changing engine methods this session has invoked.
  The mutex is not modelled: every operation below runs as one critical section, and the
  wait at the end of \<open>GenerateQR\<close>, which the Go code performs after unlocking, touches
  no field of the struct.
\<close>

datatype event = events_QR | events_Connected | events_Disconnected | events_Other

record 'e Client =
  ID :: string
  client :: 'e
  eventHandler :: bool
  forwarded :: "event list"
  status :: ClientStatus
  lastActivity :: nat
  connError :: string
  qrChan :: "chan option"
  qrTimeout :: "nat option"
  pairChan :: "chan option"
  pairTimeout :: "nat option"
  dataDir :: string
  calls :: "engine_call list"

text \<open>
  \<open>filepath.Join\<close> with the separator \<open>/\<close>: leading empty elements are dropped, the
  rest is joined with the separator and then cleaned. \<open>filepath.Clean\<close> works on the
  elements between separators: empty elements and \<open>.\<close> are dropped, \<open>..\<close> removes the
  element before it (at the start of a rooted path it is dropped, at the start of a relative
  path it is kept), and an empty result is \<open>.\<close>.
\<close>

fun split_sep :: "string \<Rightarrow> string list" where
  "split_sep [] = [[]]"
| "split_sep (x # xs) =
     (if x = CHR ''/'' then [] # split_sep xs
      else case split_sep xs of [] \<Rightarrow> [[x]] | y # ys \<Rightarrow> (x # y) # ys)"

fun join_sep :: "string list \<Rightarrow> string" where
  "join_sep [] = []"
| "join_sep [x] = x"
| "join_sep (x # y # ys) = x @ ''/'' @ join_sep (y # ys)"

definition clean_step :: "bool \<Rightarrow> string list \<Rightarrow> string \<Rightarrow> string list" where
  "clean_step rooted st e =
     (if e = [] \<or> e = ''.'' then st
      else if e = ''..'' then
        (if st \<noteq> [] \<and> last st \<noteq> ''..'' then butlast st
         else if rooted then st
         else st @ [''..''])
      else st @ [e])"

definition filepath_Clean :: "string \<Rightarrow> string" where
  "filepath_Clean p =
     (case p of
        [] \<Rightarrow> ''.''
      | x # xs \<Rightarrow>
          let rooted = (x = CHR ''/'');
              st = foldl (clean_step rooted) [] (split_sep p)
          in if rooted then CHR ''/'' # join_sep st
             else if st = [] then ''.'' else join_sep st)"

definition filepath_Join_list :: "string list \<Rightarrow> string" where
  "filepath_Join_list elems =
     (case dropWhile (\<lambda>e. e = []) elems of
        [] \<Rightarrow> []
      | e # es \<Rightarrow> filepath_Clean (join_sep (e # es)))"

definition filepath_Join :: "string \<Rightarrow> string \<Rightarrow> string" where
  "filepath_Join a b = filepath_Join_list [a, b]"

subsection \<open>Calls into the engine\<close>

definition call_Connect :: "'e engine \<Rightarrow> 'e Client \<Rightarrow> string option \<times> 'e Client" where
  "call_Connect E c =
     (case engConnect E (client c) of
        (r, e') \<Rightarrow> (r, c\<lparr>client := e', calls := calls c @ [CallConnect]\<rparr>))"

definition call_Disconnect :: "'e engine \<Rightarrow> 'e Client \<Rightarrow> 'e Client" where
  "call_Disconnect E c =
     c\<lparr>client := engDisconnect E (client c), calls := calls c @ [CallDisconnect]\<rparr>"

definition call_Logout :: "'e engine \<Rightarrow> 'e Client \<Rightarrow> string option \<times> 'e Client" where
  "call_Logout E c =
     (case engLogout E (client c) of
        (r, e') \<Rightarrow> (r, c\<lparr>client := e', calls := calls c @ [CallLogout]\<rparr>))"

definition call_GetQRChannel :: "'e engine \<Rightarrow> 'e Client \<Rightarrow> string option \<times> 'e Client" where
  "call_GetQRChannel E c =
     (case engGetQRChannel E (client c) of
        (r, e') \<Rightarrow> (r, c\<lparr>client := e', calls := calls c @ [CallGetQRChannel]\<rparr>))"

definition call_SendMessage ::
  "'e engine \<Rightarrow> JID \<Rightarrow> string \<Rightarrow> 'e Client \<Rightarrow> string option \<times> 'e Client" where
  "call_SendMessage E j m c =
     (case engSendMessage E (client c) j m of
        (r, e') \<Rightarrow> (r, c\<lparr>client := e', calls := calls c @ [CallSendMessage j m]\<rparr>))"

subsection \<open>NewClient\<close>

text \<open>
  What the operating system and the engine library answer to \<open>NewClient\<close>:
  \<open>os.MkdirAll\<close>, \<open>sqlstore.New\<close> and \<open>GetFirstDevice\<close> each may fail with a message;
  \<open>newEngine\<close> is the engine object \<open>whatsmeow.NewClient\<close> returns.
\<close>

record 'e new_env =
  mkdirErr :: "string option"
  dbErr :: "string option"
  deviceErr :: "string option"
  newEngine :: 'e

definition NewClient :: "'e new_env \<Rightarrow> nat \<Rightarrow> string \<Rightarrow> string \<Rightarrow> error + 'e Client" where
  "NewClient env now i dir =
     (if i = [] then Inl ErrEmptyID
      else case mkdirErr env of Some e \<Rightarrow> Inl (ErrCreateDir e)
      | None \<Rightarrow>
     (case dbErr env of Some e \<Rightarrow> Inl (ErrDatabase e)
      | None \<Rightarrow>
     (case deviceErr env of Some e \<Rightarrow> Inl (ErrGetDevice e)
      | None \<Rightarrow>
        Inr \<lparr>ID = i, client = newEngine env, eventHandler = False, forwarded = [],
             status = StatusLoggedOut, lastActivity = now, connError = [],
             qrChan = Some make_chan, qrTimeout = None,
             pairChan = Some make_chan, pairTimeout = None,
             dataDir = filepath_Join dir i, calls = []\<rparr>)))"

subsection \<open>Connect, Disconnect, Logout\<close>

definition Connect :: "'e engine \<Rightarrow> nat \<Rightarrow> 'e Client \<Rightarrow> 'e Client \<times> error option" where
  "Connect E now c0 =
     (let c = c0\<lparr>lastActivity := now\<rparr> in
      if engIsConnected E (client c) then (c, None)
      else case call_Connect E c of
        (Some err, c') \<Rightarrow>
          (c'\<lparr>status := StatusError, connError := err\<rparr>, Some (ErrConnect err))
      | (None, c') \<Rightarrow>
          (if engIsLoggedIn E (client c') then c'\<lparr>status := StatusConnected\<rparr>
           else c'\<lparr>status := StatusDisconnected\<rparr>, None))"

definition Disconnect :: "'e engine \<Rightarrow> nat \<Rightarrow> 'e Client \<Rightarrow> 'e Client \<times> error option" where
  "Disconnect E now c0 =
     (let c = c0\<lparr>lastActivity := now\<rparr> in
      if \<not> engIsConnected E (client c) then (c, None)
      else ((call_Disconnect E c)\<lparr>status := StatusDisconnected\<rparr>, None))"

definition Logout :: "'e engine \<Rightarrow> nat \<Rightarrow> 'e Client \<Rightarrow> 'e Client \<times> error option" where
  "Logout E now c0 =
     (let c = c0\<lparr>lastActivity := now\<rparr> in
      if \<not> engIsLoggedIn E (client c) then (c, None)
      else case call_Logout E c of
        (Some err, c') \<Rightarrow>
          (c'\<lparr>status := StatusError, connError := err\<rparr>, Some (ErrLogout err))
      | (None, c') \<Rightarrow> (c'\<lparr>status := StatusLoggedOut\<rparr>, None))"

subsection \<open>GenerateQR\<close>

text \<open>One item of the engine's QR channel (\<open>whatsmeow.QRChannelItem\<close>).\<close>

record QRChannelItem =
  Event :: string
  Code :: string

text \<open>
  The \<open>select\<close> at the end of \<open>GenerateQR\<close> races the first item of the QR channel
  against \<open>time.After(30 * time.Second)\<close>. Durations are nanoseconds, as in Go.
  \<open>arrival\<close> is the delay after which the first item is ready, if there is one; when
  both cases are ready at the same instant Go picks either, which \<open>tie\<close> decides.
\<close>

definition Second :: nat where
  "Second = 1000000000"

datatype qr_select = QRReceived QRChannelItem | QRTimerFired

definition select_qr :: "(nat \<times> QRChannelItem) option \<Rightarrow> bool \<Rightarrow> qr_select" where
  "select_qr arrival tie =
     (case arrival of
        None \<Rightarrow> QRTimerFired
      | Some (d, evt) \<Rightarrow>
          if d < 30 * Second then QRReceived evt
          else if 30 * Second < d then QRTimerFired
          else if tie then QRReceived evt else QRTimerFired)"

definition qr_result :: "qr_select \<Rightarrow> error + string" where
  "qr_result s =
     (case s of
        QRReceived evt \<Rightarrow>
          if Event evt = ''code'' then Inr (Code evt)
          else if Event evt = ''err-client-outdated'' then Inl ErrClientOutdated
          else Inl (ErrUnexpectedQREvent (Event evt))
      | QRTimerFired \<Rightarrow> Inl ErrQRTimeout)"

definition GenerateQR ::
  "'e engine \<Rightarrow> nat \<Rightarrow> (nat \<times> QRChannelItem) option \<Rightarrow> bool \<Rightarrow> 'e Client
     \<Rightarrow> 'e Client \<times> (error + string)" where
  "GenerateQR E now arrival tie c0 =
     (let c = c0\<lparr>lastActivity := now\<rparr> in
      if engIsLoggedIn E (client c) then (c, Inl ErrAlreadyLoggedIn)
      else
        let c1 = (if engIsConnected E (client c) then call_Disconnect E c else c) in
        case call_GetQRChannel E c1 of
          (Some err, c2) \<Rightarrow>
            (c2\<lparr>status := StatusError, connError := err\<rparr>, Inl (ErrRequestQR err))
        | (None, c2) \<Rightarrow>
            (case call_Connect E c2 of
               (Some err, c3) \<Rightarrow>
                 (c3\<lparr>status := StatusError, connError := err\<rparr>, Inl (ErrConnect err))
             | (None, c3) \<Rightarrow> (c3, qr_result (select_qr arrival tie))))"

subsection \<open>Phone pairing\<close>

definition PairPhone :: "string \<Rightarrow> 'e Client \<Rightarrow> 'e Client \<times> error option" where
  "PairPhone phoneNumber c = (c, Some ErrPairPhoneUnavailable)"

definition GetPairingCode :: "'e Client \<Rightarrow> 'e Client \<times> (error + string)" where
  "GetPairingCode c = (c, Inl ErrPairingCodeUnavailable)"

subsection \<open>SendMessage\<close>

text \<open>The recipient formatting at the head of \<open>SendMessage\<close>.\<close>

definition strip_plus :: "string \<Rightarrow> string" where
  "strip_plus r = (if 0 < length r \<and> r ! 0 = CHR ''+'' then drop 1 r else r)"

definition add_suffix :: "string \<Rightarrow> string" where
  "add_suffix r = (if CHR ''@'' \<notin> set r then r @ ''@s.whatsapp.net'' else r)"

definition format_recipient :: "string \<Rightarrow> string" where
  "format_recipient r = add_suffix (strip_plus r)"

definition SendMessage ::
  "'e engine \<Rightarrow> nat \<Rightarrow> string \<Rightarrow> string \<Rightarrow> 'e Client \<Rightarrow> 'e Client \<times> error option" where
  "SendMessage E now recipient message c0 =
     (let c = c0\<lparr>lastActivity := now\<rparr> in
      if \<not> engIsConnected E (client c) then (c, Some ErrNotConnected)
      else if \<not> engIsLoggedIn E (client c) then (c, Some ErrNotLoggedIn)
      else case ParseJID E (format_recipient recipient) of
        Inl err \<Rightarrow> (c, Some (ErrInvalidRecipient err))
      | Inr jid \<Rightarrow>
          if Server jid \<noteq> DefaultUserServer then (c, Some ErrNotUserJID)
          else if User jid = [] then (c, Some ErrEmptyUser)
          else case call_SendMessage E jid message c of
            (Some err, c') \<Rightarrow> (c', Some (ErrSendFailed err))
          | (None, c') \<Rightarrow> (c', None))"

subsection \<open>GetState, Close, handleEvent\<close>

definition GetState :: "'e engine \<Rightarrow> 'e Client \<Rightarrow> ClientState" where
  "GetState E c =
     (let connected = engIsConnected E (client c);
          loggedIn = engIsLoggedIn E (client c);
          st = (if loggedIn then StatusConnected
                else if connected then StatusDisconnected
                else status c);
          pushName = (if engPushName E (client c) \<noteq> [] then engPushName E (client c) else []);
          phoneNumber = (case engStoreID E (client c) of
                           Some j \<Rightarrow> if loggedIn then User j else []
                         | None \<Rightarrow> [])
      in \<lparr>StateID = ID c, Status = st, LastActivity = lastActivity c,
          Connected = connected, LoggedIn = loggedIn, PushName = pushName,
          PhoneNumber = phoneNumber, ConnectionError = connError c\<rparr>)"

definition Close :: "'e engine \<Rightarrow> 'e Client \<Rightarrow> 'e Client \<times> error option" where
  "Close E c =
     ((if engIsConnected E (client c) then call_Disconnect E c else c), None)"

text \<open>
  The non-blocking send \<open>select { case ch <- v: default: }\<close>: the value is handed
  over only when a receiver is parked on the channel.
\<close>

definition try_send :: "string \<Rightarrow> chan \<Rightarrow> chan" where
  "try_send v ch = (if parked ch then ch\<lparr>parked := False, delivered := delivered ch @ [v]\<rparr> else ch)"

definition handleEvent :: "'e engine \<Rightarrow> nat \<Rightarrow> event \<Rightarrow> 'e Client \<Rightarrow> 'e Client" where
  "handleEvent E now evt c0 =
     (let c = c0\<lparr>lastActivity := now\<rparr>;
          c1 = (case evt of
                  events_QR \<Rightarrow>
                    (case qrChan c of
                       Some ch \<Rightarrow> c\<lparr>qrChan := Some (try_send ''qr_event_received'' ch)\<rparr>
                     | None \<Rightarrow> c)
                | events_Connected \<Rightarrow> c\<lparr>status := StatusConnected, connError := []\<rparr>
                | events_Disconnected \<Rightarrow>
                    if engIsLoggedIn E (client c) then c\<lparr>status := StatusDisconnected\<rparr>
                    else c\<lparr>status := StatusLoggedOut\<rparr>
                | events_Other \<Rightarrow> c)
      in if eventHandler c1 then c1\<lparr>forwarded := forwarded c1 @ [evt]\<rparr> else c1)"

definition SetEventHandler :: "bool \<Rightarrow> 'e Client \<Rightarrow> 'e Client" where
  "SetEventHandler h c = c\<lparr>eventHandler := h\<rparr>"

section \<open>Operating system and disk\<close>

text \<open>
  The files under the data directory, by path, and the lines written to standard output.
  \<open>os_env\<close> collects what lies outside the program: whether a write, a read or a
  removal of a path fails (with the message of the failure), and the JSON encoder and
  decoder for \<open>ClientState\<close>. A failed write or removal leaves the files as they were.
\<close>

record world =
  files :: "string \<rightharpoonup> string"
  stdout :: "string list"

record os_env =
  marshal :: "ClientState \<Rightarrow> string + string"
  unmarshal :: "string \<Rightarrow> string + ClientState"
  writeErr :: "string \<Rightarrow> string option"
  readErr :: "string \<Rightarrow> string option"
  removeErr :: "string \<Rightarrow> string option"

definition Printf :: "string \<Rightarrow> world \<Rightarrow> world" where
  "Printf line w = w\<lparr>stdout := stdout w @ [line]\<rparr>"

definition os_WriteFile :: "os_env \<Rightarrow> string \<Rightarrow> string \<Rightarrow> world \<Rightarrow> world \<times> string option" where
  "os_WriteFile os path data w =
     (case writeErr os path of
        Some e \<Rightarrow> (w, Some e)
      | None \<Rightarrow> (w\<lparr>files := (files w)(path \<mapsto> data)\<rparr>, None))"

definition os_ReadFile :: "os_env \<Rightarrow> string \<Rightarrow> world \<Rightarrow> string + string" where
  "os_ReadFile os path w =
     (case readErr os path of
        Some e \<Rightarrow> Inl e
      | None \<Rightarrow>
          (case files w path of
             None \<Rightarrow> Inl ''no such file or directory''
           | Some data \<Rightarrow> Inr data))"

definition under :: "string \<Rightarrow> string \<Rightarrow> bool" where
  "under dir path = (path = dir \<or> take (length dir + 1) path = dir @ ''/'')"

definition os_RemoveAll :: "os_env \<Rightarrow> string \<Rightarrow> world \<Rightarrow> world \<times> string option" where
  "os_RemoveAll os dir w =
     (case removeErr os dir of
        Some e \<Rightarrow> (w, Some e)
      | None \<Rightarrow> (w\<lparr>files := (\<lambda>p. if under dir p then None else files w p)\<rparr>, None))"

subsection \<open>SaveState\<close>

definition SaveState :: "'e engine \<Rightarrow> os_env \<Rightarrow> 'e Client \<Rightarrow> world \<Rightarrow> world \<times> error option" where
  "SaveState E os c w =
     (case marshal os (GetState E c) of
        Inl e \<Rightarrow> (w, Some (ErrMarshalState e))
      | Inr data \<Rightarrow>
          (case os_WriteFile os (filepath_Join (dataDir c) ''state.json'') data w of
             (w', Some e) \<Rightarrow> (w', Some (ErrWriteStateFile e))
           | (w', None) \<Rightarrow> (w', None)))"

section \<open>ClientManager\<close>

text \<open>
  The Go map \<open>clients\<close> is an association list with one pair per key; its order is
  the order in which a \<open>range\<close> loop happens to visit the map, so a statement for all
  lists covers every iteration order. \<open>saveTimer\<close> tells whether the periodic-save
  timer is armed.
\<close>

record 'e ClientManager =
  clients :: "(string \<times> 'e Client) list"
  defaultClient :: string
  managerDir :: string
  saveTimer :: bool

definition NewClientManager :: "string option \<Rightarrow> string \<Rightarrow> 'e ClientManager option" where
  "NewClientManager mkdirFailure dir =
     (case mkdirFailure of
        Some e \<Rightarrow> None
      | None \<Rightarrow> Some \<lparr>clients = [], defaultClient = [], managerDir = dir, saveTimer = True\<rparr>)"

subsection \<open>SaveClients\<close>

text \<open>The body of the loop: save one client, and print a warning when that fails.\<close>

definition save_logged :: "'e engine \<Rightarrow> os_env \<Rightarrow> 'e Client \<Rightarrow> world \<Rightarrow> world" where
  "save_logged E os c w =
     (case SaveState E os c w of
        (w', Some err) \<Rightarrow>
          Printf (''Warning: Failed to save state for '' @ ID c @ '': '' @ Error err) w'
      | (w', None) \<Rightarrow> w')"

fun save_each :: "'e engine \<Rightarrow> os_env \<Rightarrow> (string \<times> 'e Client) list \<Rightarrow> world \<Rightarrow> world" where
  "save_each E os [] w = w"
| "save_each E os ((k, c) # cs) w = save_each E os cs (save_logged E os c w)"

definition SaveClients ::
  "'e engine \<Rightarrow> os_env \<Rightarrow> 'e ClientManager \<Rightarrow> world \<Rightarrow> world \<times> error option" where
  "SaveClients E os cm w0 =
     (let w = save_each E os (clients cm) w0 in
      if defaultClient cm \<noteq> [] then
        (case os_WriteFile os (filepath_Join (managerDir cm) ''default_client'')
                (defaultClient cm) w of
           (w', Some e) \<Rightarrow> (w', Some (ErrSaveDefault e))
         | (w', None) \<Rightarrow> (w', None))
      else (w, None))"

definition periodicSave :: "'e engine \<Rightarrow> os_env \<Rightarrow> 'e ClientManager \<Rightarrow> world \<Rightarrow> world" where
  "periodicSave E os cm w =
     (case SaveClients E os cm w of
        (w', Some err) \<Rightarrow> Printf (''Warning: Failed to save clients: '' @ Error err) w'
      | (w', None) \<Rightarrow> w')"

subsection \<open>CreateClient, GetClient\<close>

definition CreateClient ::
  "'e engine \<Rightarrow> os_env \<Rightarrow> 'e new_env \<Rightarrow> nat \<Rightarrow> string \<Rightarrow> 'e ClientManager \<times> world
     \<Rightarrow> ('e ClientManager \<times> world) \<times> (error + 'e Client)" where
  "CreateClient E os env now i s =
     (case s of (cm, w) \<Rightarrow>
      if i = [] then (s, Inl ErrEmptyID)
      else if map_of (clients cm) i \<noteq> None then (s, Inl (ErrAlreadyExists i))
      else case NewClient env now i (managerDir cm) of
        Inl err \<Rightarrow> (s, Inl err)
      | Inr c \<Rightarrow>
          let cs = AList.update i c (clients cm);
              d = (if length cs = 1 \<and> defaultClient cm = [] then i else defaultClient cm);
              w' = (case SaveState E os c w of
                      (w1, Some err) \<Rightarrow>
                        Printf (''Warning: Failed to save initial state for '' @ i @ '': ''
                                @ Error err) w1
                    | (w1, None) \<Rightarrow> w1)
          in ((cm\<lparr>clients := cs, defaultClient := d\<rparr>, w'), Inr c))"

definition GetClient :: "string \<Rightarrow> 'e ClientManager \<Rightarrow> error + 'e Client" where
  "GetClient i0 cm =
     (if i0 = [] \<and> defaultClient cm = [] then Inl ErrNoDefault
      else
        let i = (if i0 = [] then defaultClient cm else i0) in
        case map_of (clients cm) i of
          None \<Rightarrow> Inl (ErrNotFound i)
        | Some c \<Rightarrow> Inr c)"

subsection \<open>DeleteClient\<close>

text \<open>
  After the entry is removed, a deleted default is replaced by the key the \<open>range\<close>
  loop visits first. Go fixes no iteration order, so the caller of the model chooses it:
  \<open>pick\<close> indexes the remaining entries. The one-second sleep is not modelled.
\<close>

definition first_key :: "nat \<Rightarrow> (string \<times> 'a) list \<Rightarrow> string" where
  "first_key pick cs = (if 0 < length cs then fst (cs ! (pick mod length cs)) else [])"

definition DeleteClient ::
  "'e engine \<Rightarrow> os_env \<Rightarrow> nat \<Rightarrow> string \<Rightarrow> 'e ClientManager \<times> world
     \<Rightarrow> ('e ClientManager \<times> world) \<times> error option" where
  "DeleteClient E os pick i s =
     (case s of (cm, w) \<Rightarrow>
      case map_of (clients cm) i of
        None \<Rightarrow> (s, Some (ErrNotFound i))
      | Some c \<Rightarrow>
          let c1 = (if engIsConnected E (client c) then call_Disconnect E c else c);
              c2 = (if engIsLoggedIn E (client c1) then snd (call_Logout E c1) else c1)
          in case Close E c2 of
            (c3, Some err) \<Rightarrow> ((cm\<lparr>clients := AList.update i c3 (clients cm)\<rparr>, w), Some err)
          | (c3, None) \<Rightarrow>
              let cs = AList.delete i (clients cm);
                  d = (if defaultClient cm = i then first_key pick cs else defaultClient cm);
                  w' = (case os_RemoveAll os (filepath_Join (managerDir cm) i) w of
                          (w1, Some e) \<Rightarrow>
                            Printf (''Warning: Failed to remove client directory for '' @ i
                                    @ '': '' @ e) w1
                        | (w1, None) \<Rightarrow> w1)
              in ((cm\<lparr>clients := cs, defaultClient := d\<rparr>, w'), None))"

subsection \<open>SetDefaultClient, GetDefaultClient, ListClients\<close>

definition SetDefaultClient ::
  "os_env \<Rightarrow> string \<Rightarrow> 'e ClientManager \<times> world
     \<Rightarrow> ('e ClientManager \<times> world) \<times> error option" where
  "SetDefaultClient os i s =
     (case s of (cm, w) \<Rightarrow>
      if map_of (clients cm) i = None then (s, Some (ErrNotFound i))
      else
        case os_WriteFile os (filepath_Join (managerDir cm) ''default_client'') i w of
          (w', Some e) \<Rightarrow> ((cm\<lparr>defaultClient := i\<rparr>, w'), Some (ErrSaveDefault e))
        | (w', None) \<Rightarrow> ((cm\<lparr>defaultClient := i\<rparr>, w'), None))"

definition GetDefaultClient :: "'e ClientManager \<Rightarrow> string" where
  "GetDefaultClient cm = defaultClient cm"

definition ListClients :: "'e engine \<Rightarrow> 'e ClientManager \<Rightarrow> ClientState list" where
  "ListClients E cm = map (\<lambda>(k, c). GetState E c) (clients cm)"

subsection \<open>Close\<close>

text \<open>
  \<open>ClientManager.Close\<close>: stop the timer, save and close every client, then replace
  the map by an empty one. The closed clients are returned beside the manager.
\<close>

fun close_each ::
  "'e engine \<Rightarrow> os_env \<Rightarrow> (string \<times> 'e Client) list \<Rightarrow> world \<Rightarrow> 'e Client list \<times> world" where
  "close_each E os [] w = ([], w)"
| "close_each E os ((k, c) # cs) w =
     (let w1 = save_logged E os c w;
          (c', w2) = (case Close E c of
                        (c', Some err) \<Rightarrow>
                          (c', Printf (''Warning: Failed to close client '' @ ID c @ '': ''
                                       @ Error err) w1)
                      | (c', None) \<Rightarrow> (c', w1));
          (rest, w3) = close_each E os cs w2
      in (c' # rest, w3))"

definition ManagerClose ::
  "'e engine \<Rightarrow> os_env \<Rightarrow> 'e ClientManager \<times> world
     \<Rightarrow> ('e ClientManager \<times> world) \<times> 'e Client list" where
  "ManagerClose E os s =
     (case s of (cm, w) \<Rightarrow>
      case close_each E os (clients cm) w of
        (closed, w') \<Rightarrow> ((cm\<lparr>saveTimer := False, clients := []\<rparr>, w'), closed))"

subsection \<open>LoadClients\<close>

text \<open>
  \<open>load_env\<close> is what \<open>LoadClients\<close> finds outside the program: the result of
  \<open>os.ReadDir\<close> (a failure, or the entries with their names and directory flags) and,
  for each name, the answers \<open>NewClient\<close> gets. The reconnects are started as
  goroutines and do not run inside \<open>LoadClients\<close>; the model returns the identifiers
  of the clients for which one was started.
\<close>

record 'e load_env =
  readDir :: "string + (string \<times> bool) list"
  newEnvFor :: "string \<Rightarrow> 'e new_env"

fun load_each ::
  "os_env \<Rightarrow> 'e load_env \<Rightarrow> nat \<Rightarrow> (string \<times> bool) list
     \<Rightarrow> ('e ClientManager \<times> world) \<times> string list
     \<Rightarrow> ('e ClientManager \<times> world) \<times> string list" where
  "load_each os env now [] s = s"
| "load_each os env now ((name, isDir) # es) ((cm, w), spawned) =
     (if \<not> isDir then load_each os env now es ((cm, w), spawned)
      else
        let stateFile = filepath_Join_list [managerDir cm, name, ''state.json''] in
        if files w stateFile = None then load_each os env now es ((cm, w), spawned)
        else case os_ReadFile os stateFile w of
          Inl e \<Rightarrow>
            load_each os env now es
              ((cm, Printf (''Warning: Failed to read state file for '' @ name @ '': '' @ e) w),
               spawned)
        | Inr data \<Rightarrow>
            (case unmarshal os data of
               Inl e \<Rightarrow>
                 load_each os env now es
                   ((cm, Printf (''Warning: Failed to parse state for '' @ name @ '': '' @ e) w),
                    spawned)
             | Inr state \<Rightarrow>
                 (case NewClient (newEnvFor env name) now name (managerDir cm) of
                    Inl err \<Rightarrow>
                      load_each os env now es
                        ((cm, Printf (''Warning: Failed to create client '' @ name @ '': ''
                                      @ Error err) w),
                         spawned)
                  | Inr c \<Rightarrow>
                      let cm1 = cm\<lparr>clients := AList.update name c (clients cm)\<rparr>;
                          cm2 = (case os_ReadFile os
                                        (filepath_Join (managerDir cm) ''default_client'') w of
                                   Inr d \<Rightarrow> cm1\<lparr>defaultClient := d\<rparr>
                                 | Inl e \<Rightarrow> cm1);
                          spawned' = (if Status state = StatusConnected \<or> Connected state
                                      then spawned @ [name] else spawned)
                      in load_each os env now es ((cm2, w), spawned'))))"

definition LoadClients ::
  "os_env \<Rightarrow> 'e load_env \<Rightarrow> nat \<Rightarrow> 'e ClientManager \<times> world
     \<Rightarrow> (('e ClientManager \<times> world) \<times> string list) \<times> error option" where
  "LoadClients os env now s =
     (case readDir env of
        Inl e \<Rightarrow> ((s, []), Some (ErrReadDataDir e))
      | Inr entries \<Rightarrow> (load_each os env now entries (s, []), None))"

section \<open>A simulated engine\<close>

text \<open>
  A small engine used to run the model on concrete inputs: its state holds the two flags
  and the answers it gives to \<open>Connect\<close> and \<open>SendMessage\<close>. Connecting sets the
  connected flag, disconnecting clears it, logging out clears both.
\<close>

record sim =
  simConnected :: bool
  simLoggedIn :: bool
  simConnectErr :: "string option"
  simSendErr :: "string option"

definition sim_ParseJID :: "string \<Rightarrow> string + JID" where
  "sim_ParseJID r =
     (if CHR ''@'' \<in> set r
      then Inr \<lparr>User = takeWhile (\<lambda>x. x \<noteq> CHR ''@'') r,
                Server = drop 1 (dropWhile (\<lambda>x. x \<noteq> CHR ''@'') r)\<rparr>
      else Inr \<lparr>User = [], Server = r\<rparr>)"

definition sim_engine :: "sim engine" where
  "sim_engine =
     \<lparr>engIsConnected = simConnected,
      engIsLoggedIn = simLoggedIn,
      engConnect = (\<lambda>s. case simConnectErr s of
                          Some e \<Rightarrow> (Some e, s)
                        | None \<Rightarrow> (None, s\<lparr>simConnected := True\<rparr>)),
      engDisconnect = (\<lambda>s. s\<lparr>simConnected := False\<rparr>),
      engLogout = (\<lambda>s. (None, s\<lparr>simConnected := False, simLoggedIn := False\<rparr>)),
      engGetQRChannel = (\<lambda>s. (None, s)),
      engSendMessage = (\<lambda>s j m. (simSendErr s, s)),
      engStoreID = (\<lambda>s. None),
      engPushName = (\<lambda>s. []),
      ParseJID = sim_ParseJID\<rparr>"

definition sim_client :: "bool \<Rightarrow> bool \<Rightarrow> sim Client" where
  "sim_client conn li =
     \<lparr>ID = ''work'',
      client = \<lparr>simConnected = conn, simLoggedIn = li, simConnectErr = None,
                simSendErr = Some ''websocket closed''\<rparr>,
      eventHandler = False, forwarded = [],
      status = StatusError, lastActivity = 3, connError = ''dial tcp: i/o timeout'',
      qrChan = Some make_chan, qrTimeout = None,
      pairChan = Some make_chan, pairTimeout = None,
      dataDir = ''data/work'', calls = []\<rparr>"

definition sim_os :: "string list \<Rightarrow> os_env" where
  "sim_os readonly =
     \<lparr>marshal = (\<lambda>st. Inr (StateID st @ '':'' @ Status st)),
      unmarshal = (\<lambda>data. Inr \<lparr>StateID = takeWhile (\<lambda>x. x \<noteq> CHR '':'') data,
                                Status = drop 1 (dropWhile (\<lambda>x. x \<noteq> CHR '':'') data),
                                LastActivity = 0, Connected = False, LoggedIn = False,
                                PushName = [], PhoneNumber = [], ConnectionError = []\<rparr>),
      writeErr = (\<lambda>p. if p \<in> set readonly then Some ''permission denied'' else None),
      readErr = (\<lambda>p. None),
      removeErr = (\<lambda>p. None)\<rparr>"

definition sim_new :: "sim new_env" where
  "sim_new =
     \<lparr>mkdirErr = None, dbErr = None, deviceErr = None,
      newEngine = \<lparr>simConnected = False, simLoggedIn = False, simConnectErr = None,
                   simSendErr = None\<rparr>\<rparr>"

definition empty_manager :: "sim ClientManager" where
  "empty_manager = \<lparr>clients = [], defaultClient = [], managerDir = ''data'', saveTimer = True\<rparr>"

definition empty_world :: world where
  "empty_world = \<lparr>files = Map.empty, stdout = []\<rparr>"

definition sim_fresh :: "nat \<Rightarrow> sim Client" where
  "sim_fresh now =
     \<lparr>ID = ''work'', client = newEngine sim_new, eventHandler = False, forwarded = [],
      status = StatusLoggedOut, lastActivity = now, connError = [],
      qrChan = Some make_chan, qrTimeout = None,
      pairChan = Some make_chan, pairTimeout = None,
      dataDir = ''data/work'', calls = []\<rparr>"

definition two_clients :: "sim ClientManager" where
  "two_clients =
     \<lparr>clients = [(''home'', (sim_client False False)\<lparr>ID := ''home'', dataDir := ''data/home''\<rparr>),
                 (''work'', sim_client False False)],
      defaultClient = ''home'', managerDir = ''data'', saveTimer = True\<rparr>"

section \<open>Derived notions used in the statements\<close>

text \<open>The default pointer is empty or a key of the map.\<close>

definition default_ok :: "'e ClientManager \<Rightarrow> bool" where
  "default_ok cm = (defaultClient cm = [] \<or> defaultClient cm \<in> fst ` set (clients cm))"

text \<open>
  The warning lines one pass of the save loop prints for a client: one line when
  encoding or writing its state fails, none otherwise.
\<close>

definition save_warning :: "'e engine \<Rightarrow> os_env \<Rightarrow> 'e Client \<Rightarrow> string list" where
  "save_warning E os c =
     (case marshal os (GetState E c) of
        Inl e \<Rightarrow> [''Warning: Failed to save state for '' @ ID c @ '': ''
                   @ Error (ErrMarshalState e)]
      | Inr data \<Rightarrow>
          (case writeErr os (filepath_Join (dataDir c) ''state.json'') of
             Some e \<Rightarrow> [''Warning: Failed to save state for '' @ ID c @ '': ''
                        @ Error (ErrWriteStateFile e)]
           | None \<Rightarrow> []))"

text \<open>
  What one pass of the save loop writes for a client: its encoded state at its state
  path when encoding and writing succeed, nothing otherwise.
\<close>

definition state_write :: "'e engine \<Rightarrow> os_env \<Rightarrow> 'e Client \<Rightarrow> (string \<times> string) list" where
  "state_write E os c =
     (case marshal os (GetState E c) of
        Inl e \<Rightarrow> []
      | Inr data \<Rightarrow>
          (case writeErr os (filepath_Join (dataDir c) ''state.json'') of
             Some e \<Rightarrow> []
           | None \<Rightarrow> [(filepath_Join (dataDir c) ''state.json'', data)]))"

text \<open>The write of the default marker: none when the pointer is empty or the write fails.\<close>

definition marker_write :: "os_env \<Rightarrow> 'e ClientManager \<Rightarrow> (string \<times> string) list" where
  "marker_write os cm =
     (if defaultClient cm = [] then []
      else case writeErr os (filepath_Join (managerDir cm) ''default_client'') of
        Some e \<Rightarrow> []
      | None \<Rightarrow> [(filepath_Join (managerDir cm) ''default_client'', defaultClient cm)])"

text \<open>Writes applied to the files one after the other.\<close>

fun apply_writes :: "(string \<times> string) list \<Rightarrow> (string \<rightharpoonup> string) \<Rightarrow> (string \<rightharpoonup> string)" where
  "apply_writes [] f = f"
| "apply_writes ((p, d) # ws) f = apply_writes ws (f(p \<mapsto> d))"

section \<open>Paths\<close>

text \<open>The paths of the examples below; \<open>a\<close> and \<open>a/.\<close> name the same directory.\<close>

lemma join_paths:
  "filepath_Join ''data'' ''work'' = ''data/work''"
  "filepath_Join ''data'' ''home'' = ''data/home''"
  "filepath_Join ''data'' ''a'' = ''data/a''"
  "filepath_Join ''data'' ''b'' = ''data/b''"
  "filepath_Join ''data'' ''a/.'' = ''data/a''"
  "filepath_Join ''data'' ''default_client'' = ''data/default_client''"
  "filepath_Join ''data/work'' ''state.json'' = ''data/work/state.json''"
  "filepath_Join ''data/home'' ''state.json'' = ''data/home/state.json''"
  "filepath_Join ''data/a'' ''state.json'' = ''data/a/state.json''"
  "filepath_Join ''data/b'' ''state.json'' = ''data/b/state.json''"
  "filepath_Join_list [''data'', ''b'', ''state.json''] = ''data/b/state.json''"
  by (simp_all add: filepath_Join_def filepath_Join_list_def filepath_Clean_def clean_step_def)

section \<open>GetState\<close>

text \<open>
  C1. The snapshot returned by \<open>GetState\<close> carries a status recomputed from the
  engine's live flags: connected when the engine reports logged-in; disconnected when it
  reports connected but not logged-in; the recorded \<open>status\<close> field otherwise.
\<close>

theorem GetState_status:
  "Status (GetState E c) =
     (if engIsLoggedIn E (client c) then StatusConnected
      else if engIsConnected E (client c) then StatusDisconnected
      else status c)"
  by (simp add: GetState_def Let_def)

section \<open>GenerateQR\<close>

text \<open>
  C8. When the engine reports logged-in, \<open>GenerateQR\<close> fails with
  \<open>already logged in\<close> and calls no state-changing engine method: the call log and the
  engine state are as before, and so are \<open>status\<close>, \<open>connError\<close> and the QR
  channel and timer. Only the activity time stamp is written.
\<close>

theorem GenerateQR_already_logged_in:
  assumes "engIsLoggedIn E (client c)"
  shows "GenerateQR E now arrival tie c = (c\<lparr>lastActivity := now\<rparr>, Inl ErrAlreadyLoggedIn)
       \<and> calls (fst (GenerateQR E now arrival tie c)) = calls c
       \<and> client (fst (GenerateQR E now arrival tie c)) = client c
       \<and> status (fst (GenerateQR E now arrival tie c)) = status c
       \<and> connError (fst (GenerateQR E now arrival tie c)) = connError c
       \<and> qrChan (fst (GenerateQR E now arrival tie c)) = qrChan c
       \<and> qrTimeout (fst (GenerateQR E now arrival tie c)) = qrTimeout c"
  using assms by (simp add: GenerateQR_def Let_def)

theorem GenerateQR_already_logged_in_witness:
  "engIsLoggedIn sim_engine (client (sim_client True True))
   \<and> snd (GenerateQR sim_engine 8 None False (sim_client True True)) = Inl ErrAlreadyLoggedIn
   \<and> calls (fst (GenerateQR sim_engine 8 None False (sim_client True True))) = []
   \<and> connError (fst (GenerateQR sim_engine 8 None False (sim_client True True)))
       = ''dial tcp: i/o timeout''"
proof -
  have h: "engIsLoggedIn sim_engine (client (sim_client True True))"
    by (simp add: sim_engine_def sim_client_def)
  from GenerateQR_already_logged_in [OF h, of 8 None False] h show ?thesis
    by (simp add: sim_client_def)
qed

text \<open>
  C3. Take a \<open>GenerateQR\<close> call that passes the logged-in check and whose
  \<open>GetQRChannel\<close> and \<open>Connect\<close> calls succeed. Its result is decided by the wait
  alone: an item of kind \<open>code\<close> arriving before 30 seconds gives its payload; an item of
  kind \<open>err-client-outdated\<close> gives the client-outdated failure, whose message differs
  from every connect failure; an item of any other kind gives the unexpected-event
  failure; no item, or a first item after more than 30 seconds, gives the timeout.
\<close>

theorem GenerateQR_wait_outcome:
  assumes "\<not> engIsLoggedIn E (client c)"
    and "call_GetQRChannel E
           (if engIsConnected E (client c) then call_Disconnect E (c\<lparr>lastActivity := now\<rparr>)
            else c\<lparr>lastActivity := now\<rparr>) = (None, c2)"
    and "call_Connect E c2 = (None, c3)"
  shows "GenerateQR E now arrival tie c = (c3, qr_result (select_qr arrival tie))
       \<and> (\<forall>d evt. arrival = Some (d, evt) \<and> d < 30 * Second \<and> Event evt = ''code''
            \<longrightarrow> snd (GenerateQR E now arrival tie c) = Inr (Code evt))
       \<and> (\<forall>d evt. arrival = Some (d, evt) \<and> d < 30 * Second
              \<and> Event evt = ''err-client-outdated''
            \<longrightarrow> snd (GenerateQR E now arrival tie c) = Inl ErrClientOutdated)
       \<and> (\<forall>d evt. arrival = Some (d, evt) \<and> d < 30 * Second \<and> Event evt \<noteq> ''code''
              \<and> Event evt \<noteq> ''err-client-outdated''
            \<longrightarrow> snd (GenerateQR E now arrival tie c) = Inl (ErrUnexpectedQREvent (Event evt)))
       \<and> (arrival = None \<or> (\<exists>d evt. arrival = Some (d, evt) \<and> 30 * Second < d)
            \<longrightarrow> snd (GenerateQR E now arrival tie c) = Inl ErrQRTimeout)
       \<and> (\<forall>e. Error ErrClientOutdated \<noteq> Error (ErrConnect e))"
proof -
  have run: "GenerateQR E now arrival tie c = (c3, qr_result (select_qr arrival tie))"
    using assms by (simp add: GenerateQR_def Let_def)
  have code: "snd (GenerateQR E now arrival tie c) = Inr (Code evt)"
    if "arrival = Some (d, evt)" "d < 30 * Second" "Event evt = ''code''" for d evt
    using that run by (simp add: select_qr_def qr_result_def)
  have outdated: "snd (GenerateQR E now arrival tie c) = Inl ErrClientOutdated"
    if "arrival = Some (d, evt)" "d < 30 * Second" "Event evt = ''err-client-outdated''"
    for d evt
    using that run by (simp add: select_qr_def qr_result_def)
  have other: "snd (GenerateQR E now arrival tie c) = Inl (ErrUnexpectedQREvent (Event evt))"
    if "arrival = Some (d, evt)" "d < 30 * Second" "Event evt \<noteq> ''code''"
      "Event evt \<noteq> ''err-client-outdated''" for d evt
    using that run by (simp add: select_qr_def qr_result_def)
  have timeout: "snd (GenerateQR E now arrival tie c) = Inl ErrQRTimeout"
    if "arrival = None \<or> (\<exists>d evt. arrival = Some (d, evt) \<and> 30 * Second < d)"
    using that run by (auto simp add: select_qr_def qr_result_def)
  have distinct: "Error ErrClientOutdated \<noteq> Error (ErrConnect e)" for e
    by simp
  from run code outdated other timeout distinct show ?thesis
    by blast
qed

theorem GenerateQR_wait_outcome_witness:
  "\<not> engIsLoggedIn sim_engine (client (sim_client True False))
   \<and> snd (GenerateQR sim_engine 8
            (Some (2 * Second, \<lparr>Event = ''code'', Code = ''2@AbCd''\<rparr>)) False
            (sim_client True False)) = Inr ''2@AbCd''
   \<and> snd (GenerateQR sim_engine 8
            (Some (2 * Second, \<lparr>Event = ''err-client-outdated'', Code = []\<rparr>)) False
            (sim_client True False)) = Inl ErrClientOutdated
   \<and> snd (GenerateQR sim_engine 8
            (Some (2 * Second, \<lparr>Event = ''timeout'', Code = []\<rparr>)) False
            (sim_client True False)) = Inl (ErrUnexpectedQREvent ''timeout'')
   \<and> snd (GenerateQR sim_engine 8
            (Some (31 * Second, \<lparr>Event = ''code'', Code = ''2@AbCd''\<rparr>)) False
            (sim_client True False)) = Inl ErrQRTimeout
   \<and> snd (GenerateQR sim_engine 8 None False (sim_client True False)) = Inl ErrQRTimeout"
proof -
  have h1: "\<not> engIsLoggedIn sim_engine (client (sim_client True False))"
    by (simp add: sim_engine_def sim_client_def)
  obtain c2 where h2: "call_GetQRChannel sim_engine
      (if engIsConnected sim_engine (client (sim_client True False))
       then call_Disconnect sim_engine ((sim_client True False)\<lparr>lastActivity := 8\<rparr>)
       else (sim_client True False)\<lparr>lastActivity := 8\<rparr>) = (None, c2)"
    by (simp add: sim_engine_def sim_client_def call_GetQRChannel_def call_Disconnect_def)
  obtain c3 where h3: "call_Connect sim_engine c2 = (None, c3)"
    using h2
    by (auto simp add: sim_engine_def sim_client_def call_GetQRChannel_def call_Disconnect_def
          call_Connect_def)
  note run = GenerateQR_wait_outcome [OF h1 h2 h3]
  have code: "snd (GenerateQR sim_engine 8
            (Some (2 * Second, \<lparr>Event = ''code'', Code = ''2@AbCd''\<rparr>)) False
            (sim_client True False)) = Inr ''2@AbCd''"
    using run [of "Some (2 * Second, \<lparr>Event = ''code'', Code = ''2@AbCd''\<rparr>)" False]
    by (simp add: Second_def select_qr_def qr_result_def)
  have outdated: "snd (GenerateQR sim_engine 8
            (Some (2 * Second, \<lparr>Event = ''err-client-outdated'', Code = []\<rparr>)) False
            (sim_client True False)) = Inl ErrClientOutdated"
    using run [of "Some (2 * Second, \<lparr>Event = ''err-client-outdated'', Code = []\<rparr>)" False]
    by (simp add: Second_def select_qr_def qr_result_def)
  have other: "snd (GenerateQR sim_engine 8
            (Some (2 * Second, \<lparr>Event = ''timeout'', Code = []\<rparr>)) False
            (sim_client True False)) = Inl (ErrUnexpectedQREvent ''timeout'')"
    using run [of "Some (2 * Second, \<lparr>Event = ''timeout'', Code = []\<rparr>)" False]
    by (simp add: Second_def select_qr_def qr_result_def)
  have late: "snd (GenerateQR sim_engine 8
            (Some (31 * Second, \<lparr>Event = ''code'', Code = ''2@AbCd''\<rparr>)) False
            (sim_client True False)) = Inl ErrQRTimeout"
    using run [of "Some (31 * Second, \<lparr>Event = ''code'', Code = ''2@AbCd''\<rparr>)" False]
    by (simp add: Second_def select_qr_def qr_result_def)
  have never: "snd (GenerateQR sim_engine 8 None False (sim_client True False)) = Inl ErrQRTimeout"
    using run [of None False] by (simp add: select_qr_def qr_result_def)
  from h1 code outdated other late never show ?thesis
    by simp
qed

section \<open>Phone pairing\<close>

text \<open>
  C10. Whatever the session and the phone number, \<open>PairPhone\<close> and
  \<open>GetPairingCode\<close> return a failure, and the session they leave is the session they
  were given, field by field.
\<close>

theorem pairing_unavailable:
  "snd (PairPhone phoneNumber c) = Some ErrPairPhoneUnavailable
   \<and> fst (PairPhone phoneNumber c) = c
   \<and> snd (GetPairingCode c) = Inl ErrPairingCodeUnavailable
   \<and> fst (GetPairingCode c) = c"
  by (simp add: PairPhone_def GetPairingCode_def)

section \<open>SendMessage\<close>

text \<open>
  C9. Whenever \<open>SendMessage\<close> returns a failure, \<open>status\<close> and \<open>connError\<close>
  are after the call what they were before it.
\<close>

theorem SendMessage_failure_frame:
  assumes "SendMessage E now recipient message c = (c', Some err)"
  shows "status c' = status c \<and> connError c' = connError c"
  using assms unfolding SendMessage_def call_SendMessage_def Let_def
  by (auto split: if_splits sum.splits option.splits prod.splits)

theorem SendMessage_failure_frame_witness:
  "SendMessage sim_engine 8 ''+6281234'' ''hello'' (sim_client True True)
     = ((sim_client True True)\<lparr>lastActivity := 8,
          calls := [CallSendMessage \<lparr>User = ''6281234'', Server = ''s.whatsapp.net''\<rparr> ''hello'']\<rparr>,
        Some (ErrSendFailed ''websocket closed''))
   \<and> status (fst (SendMessage sim_engine 8 ''+6281234'' ''hello'' (sim_client True True)))
       = status (sim_client True True)
   \<and> connError (fst (SendMessage sim_engine 8 ''+6281234'' ''hello'' (sim_client True True)))
       = connError (sim_client True True)"
proof -
  have run: "SendMessage sim_engine 8 ''+6281234'' ''hello'' (sim_client True True)
     = ((sim_client True True)\<lparr>lastActivity := 8,
          calls := [CallSendMessage \<lparr>User = ''6281234'', Server = ''s.whatsapp.net''\<rparr> ''hello'']\<rparr>,
        Some (ErrSendFailed ''websocket closed''))"
    by (simp add: SendMessage_def call_SendMessage_def Let_def sim_engine_def sim_client_def
          sim_ParseJID_def format_recipient_def strip_plus_def add_suffix_def
          DefaultUserServer_def)
  from SendMessage_failure_frame [OF run] run show ?thesis
    by simp
qed

text \<open>The failures \<open>SendMessage\<close> can return are the six of its body.\<close>

lemma SendMessage_failures:
  assumes "SendMessage E now recipient message c = (c', Some err)"
  shows "err = ErrNotConnected \<or> err = ErrNotLoggedIn \<or> err = ErrNotUserJID \<or> err = ErrEmptyUser
       \<or> (\<exists>e. err = ErrInvalidRecipient e) \<or> (\<exists>e. err = ErrSendFailed e)"
  using assms unfolding SendMessage_def call_SendMessage_def Let_def
  by (auto split: if_splits sum.splits option.splits prod.splits)

subsection \<open>Recipient formatting\<close>

lemma strip_plus_Nil: "strip_plus [] = []"
  by (simp add: strip_plus_def)

lemma strip_plus_Cons: "strip_plus (x # xs) = (if x = CHR ''+'' then xs else x # xs)"
  by (simp add: strip_plus_def)

lemma add_suffix_Nil: "add_suffix [] = ''@s.whatsapp.net''"
  by (simp add: add_suffix_def)

lemma add_suffix_Cons:
  "add_suffix (x # xs) = (if x = CHR ''@'' then x # xs else x # add_suffix xs)"
  by (simp add: add_suffix_def)

lemma add_suffix_idem: "add_suffix (add_suffix r) = add_suffix r"
  by (simp add: add_suffix_def)

text \<open>
  C6, as the claim states it, fails: a recipient that begins with two plus signs loses one
  of them at each formatting.
\<close>

theorem format_recipient_not_idempotent:
  "format_recipient ''++6281234'' = ''+6281234@s.whatsapp.net''
   \<and> format_recipient (format_recipient ''++6281234'') = ''6281234@s.whatsapp.net''
   \<and> format_recipient (format_recipient ''++6281234'') \<noteq> format_recipient ''++6281234''"
  by (simp add: format_recipient_def strip_plus_def add_suffix_def)

text \<open>
  C6, amended. Formatting a formatted recipient gives the same string exactly when the
  recipient does not begin with two plus signs; and \<open>+6281234@s.whatsapp.net\<close>,
  \<open>6281234@s.whatsapp.net\<close> and \<open>6281234\<close> are all formatted to
  \<open>6281234@s.whatsapp.net\<close>.
\<close>

theorem format_recipient_idempotent:
  "(format_recipient (format_recipient r) = format_recipient r) = (take 2 r \<noteq> ''++'')
   \<and> format_recipient ''+6281234@s.whatsapp.net'' = ''6281234@s.whatsapp.net''
   \<and> format_recipient ''6281234@s.whatsapp.net'' = ''6281234@s.whatsapp.net''
   \<and> format_recipient ''6281234'' = ''6281234@s.whatsapp.net''"
proof -
  have idem: "(format_recipient (format_recipient r) = format_recipient r) = (take 2 r \<noteq> ''++'')"
  proof (cases r)
    case Nil
    then show ?thesis
      by (simp add: format_recipient_def strip_plus_Nil strip_plus_Cons add_suffix_Nil
            add_suffix_Cons)
  next
    case outer: (Cons x xs)
    show ?thesis
    proof (cases xs)
      case Nil
      with outer show ?thesis
        by (simp add: format_recipient_def strip_plus_Nil strip_plus_Cons add_suffix_Nil
              add_suffix_Cons add_suffix_idem)
    next
      case (Cons y ys)
      have longer: "add_suffix ys \<noteq> CHR ''+'' # add_suffix ys"
        by simp
      from outer Cons longer show ?thesis
        by (auto simp add: format_recipient_def strip_plus_Cons add_suffix_Cons add_suffix_idem)
    qed
  qed
  have examples:
    "format_recipient ''+6281234@s.whatsapp.net'' = ''6281234@s.whatsapp.net''"
    "format_recipient ''6281234@s.whatsapp.net'' = ''6281234@s.whatsapp.net''"
    "format_recipient ''6281234'' = ''6281234@s.whatsapp.net''"
    by (simp_all add: format_recipient_def strip_plus_def add_suffix_def)
  from idem examples show ?thesis
    by simp
qed

theorem format_recipient_idempotent_witness:
  "take 2 ''+6281234'' \<noteq> ''++''
   \<and> format_recipient (format_recipient ''+6281234'') = format_recipient ''+6281234''"
  using format_recipient_idempotent [of "''+6281234''"]
  by simp

section \<open>Connection errors\<close>

text \<open>A \<open>Connected\<close> event clears \<open>connError\<close> and sets the status to connected.\<close>

lemma handleEvent_Connected:
  "connError (handleEvent E now events_Connected c) = []
   \<and> status (handleEvent E now events_Connected c) = StatusConnected"
  by (simp add: handleEvent_def Let_def)

text \<open>A \<open>Connect\<close> call that returns success leaves \<open>connError\<close> as it was.\<close>

lemma Connect_success_connError:
  assumes "Connect E now c = (c', None)"
  shows "connError c' = connError c"
  using assms unfolding Connect_def call_Connect_def Let_def
  by (auto split: if_splits option.splits prod.splits)

text \<open>
  C7. The claim asks that \<open>connError\<close> be empty after a \<open>Connect\<close> call that
  returns success. The code does not do that: a client is created, its first
  \<open>Connect\<close> fails and records the message, the network comes back, the second
  \<open>Connect\<close> succeeds and sets the status, and \<open>connError\<close> still holds the message
  of the first failure.
\<close>

theorem Connect_success_keeps_connError:
  "(case NewClient (sim_new\<lparr>newEngine := (newEngine sim_new)
                       \<lparr>simConnectErr := Some ''dial tcp: i/o timeout''\<rparr>\<rparr>) 1 ''work'' ''data'' of
      Inl err \<Rightarrow> False
    | Inr c0 \<Rightarrow>
        (case Connect sim_engine 2 c0 of
           (c1, r1) \<Rightarrow>
             (case Connect sim_engine 3 (c1\<lparr>client := (client c1)\<lparr>simConnectErr := None\<rparr>\<rparr>) of
                (c2, r2) \<Rightarrow>
                  r1 = Some (ErrConnect ''dial tcp: i/o timeout'')
                  \<and> connError c1 = ''dial tcp: i/o timeout''
                  \<and> r2 = None
                  \<and> status c2 = StatusDisconnected
                  \<and> connError c2 = ''dial tcp: i/o timeout''
                  \<and> connError c2 \<noteq> [])))"
  by (simp add: NewClient_def sim_new_def Connect_def call_Connect_def sim_engine_def Let_def)

section \<open>The registry\<close>

subsection \<open>What each operation does to the manager\<close>

lemma CreateClient_manager:
  "fst (fst (CreateClient E os env now i (cm, w))) =
     (if i = [] \<or> map_of (clients cm) i \<noteq> None then cm
      else case NewClient env now i (managerDir cm) of
        Inl err \<Rightarrow> cm
      | Inr c \<Rightarrow>
          cm\<lparr>clients := AList.update i c (clients cm),
             defaultClient := (if length (AList.update i c (clients cm)) = 1
                                 \<and> defaultClient cm = [] then i else defaultClient cm)\<rparr>)"
  by (simp add: CreateClient_def Let_def split: sum.splits)

lemma CreateClient_result:
  "snd (CreateClient E os env now i (cm, w)) =
     (if i = [] then Inl ErrEmptyID
      else if map_of (clients cm) i \<noteq> None then Inl (ErrAlreadyExists i)
      else NewClient env now i (managerDir cm))"
  by (simp add: CreateClient_def Let_def split: sum.splits)

lemma DeleteClient_manager:
  "fst (fst (DeleteClient E os pick i (cm, w))) =
     (if map_of (clients cm) i = None then cm
      else cm\<lparr>clients := AList.delete i (clients cm),
              defaultClient := (if defaultClient cm = i
                                then first_key pick (AList.delete i (clients cm))
                                else defaultClient cm)\<rparr>)"
  by (simp add: DeleteClient_def Close_def Let_def split: option.splits)

lemma DeleteClient_result:
  "snd (DeleteClient E os pick i (cm, w)) =
     (if map_of (clients cm) i = None then Some (ErrNotFound i) else None)"
  by (simp add: DeleteClient_def Close_def Let_def split: option.splits)

lemma SetDefaultClient_manager:
  "fst (fst (SetDefaultClient os i (cm, w))) =
     (if map_of (clients cm) i = None then cm else cm\<lparr>defaultClient := i\<rparr>)"
  by (simp add: SetDefaultClient_def split: prod.splits option.splits)

lemma ManagerClose_manager:
  "fst (fst (ManagerClose E os (cm, w))) = cm\<lparr>saveTimer := False, clients := []\<rparr>"
  by (simp add: ManagerClose_def split: prod.splits)

subsection \<open>The default pointer\<close>

lemma first_key_in: "cs \<noteq> [] \<Longrightarrow> first_key pick cs \<in> fst ` set cs"
  by (simp add: first_key_def)

lemma first_key_Nil: "first_key pick [] = []"
  by (simp add: first_key_def)

lemma keys_delete: "fst ` set (AList.delete i cs) = fst ` set cs - {i}"
  by (induction cs) auto

text \<open>
  \<open>CreateClient\<close>, \<open>DeleteClient\<close> and \<open>SetDefaultClient\<close> keep the default
  pointer empty or inside the map.
\<close>

lemma CreateClient_default_ok:
  assumes "default_ok cm"
  shows "default_ok (fst (fst (CreateClient E os env now i (cm, w))))"
proof (cases "NewClient env now i (managerDir cm)")
  case (Inl err)
  with assms show ?thesis by (simp add: CreateClient_manager)
next
  case (Inr c)
  with assms show ?thesis
    by (auto simp add: CreateClient_manager default_ok_def AList.dom_update)
qed

lemma DeleteClient_default_ok:
  assumes "default_ok cm"
  shows "default_ok (fst (fst (DeleteClient E os pick i (cm, w))))"
proof -
  have pick: "first_key pick (AList.delete i (clients cm)) = []
      \<or> first_key pick (AList.delete i (clients cm)) \<in> fst ` set (AList.delete i (clients cm))"
    by (cases "AList.delete i (clients cm) = []") (simp_all add: first_key_Nil first_key_in)
  show ?thesis
  proof (cases "defaultClient cm = i")
    case True
    with pick assms show ?thesis
      by (simp add: DeleteClient_manager default_ok_def)
  next
    case False
    with assms show ?thesis
      by (auto simp add: DeleteClient_manager default_ok_def keys_delete)
  qed
qed

lemma SetDefaultClient_default_ok:
  assumes "default_ok cm"
  shows "default_ok (fst (fst (SetDefaultClient os i (cm, w))))"
  using assms by (simp add: SetDefaultClient_manager default_ok_def map_of_eq_None_iff)

text \<open>Deleting the default clears the pointer or moves it to a remaining key.\<close>

lemma DeleteClient_default:
  assumes "map_of (clients cm) i \<noteq> None" and "defaultClient cm = i"
  shows "(AList.delete i (clients cm) = []
            \<and> defaultClient (fst (fst (DeleteClient E os pick i (cm, w)))) = [])
       \<or> (AList.delete i (clients cm) \<noteq> []
            \<and> defaultClient (fst (fst (DeleteClient E os pick i (cm, w))))
                \<in> fst ` set (clients (fst (fst (DeleteClient E os pick i (cm, w))))))"
  using assms
  by (cases "AList.delete i (clients cm) = []")
     (auto simp add: DeleteClient_manager first_key_Nil first_key_in)

text \<open>
  C2. The claim asks that the default pointer be empty or a key of the map after every
  registry operation, \<open>Close\<close> included. \<open>DeleteClient\<close> takes care of that when
  it removes an entry; \<open>ClientManager.Close\<close> replaces the map by an empty one and
  leaves the pointer: after creating \<open>work\<close> and closing the manager, the map is empty
  and the default pointer is still \<open>work\<close>.
\<close>

theorem Close_leaves_default_dangling:
  "(case CreateClient sim_engine (sim_os []) sim_new 1 ''work'' (empty_manager, empty_world) of
      (s1, r1) \<Rightarrow>
        (case ManagerClose sim_engine (sim_os []) s1 of
           ((cm2, w2), closed) \<Rightarrow>
             r1 = Inr (sim_fresh 1)
             \<and> default_ok (fst s1)
             \<and> clients cm2 = [] \<and> defaultClient cm2 = ''work''
             \<and> \<not> default_ok cm2
             \<and> GetClient [] cm2 = Inl (ErrNotFound ''work'')))"
  by (simp add: CreateClient_def NewClient_def sim_new_def sim_fresh_def empty_manager_def
        empty_world_def ManagerClose_def Let_def SaveState_def sim_os_def os_WriteFile_def
        GetState_def sim_engine_def Close_def join_paths default_ok_def save_logged_def
        GetClient_def split: prod.splits)

text \<open>
  \<open>LoadClients\<close> takes the default pointer from the marker file without looking it
  up in the map. Two clients \<open>a\<close> and \<open>b\<close> are created, the periodic save writes
  the marker \<open>a\<close>, then \<open>a\<close> is deleted and the default moves to \<open>b\<close> in memory
  only. A restart that loads this data directory ends with the single client \<open>b\<close> and
  the default pointer \<open>a\<close>.
\<close>

lemma LoadClients_takes_stale_marker:
  "(case CreateClient sim_engine (sim_os []) sim_new 1 ''a'' (empty_manager, empty_world) of
      (s1, r1) \<Rightarrow>
    case CreateClient sim_engine (sim_os []) sim_new 2 ''b'' s1 of
      ((cm2, w2), r2) \<Rightarrow>
    case SaveClients sim_engine (sim_os []) cm2 w2 of
      (w3, r3) \<Rightarrow>
    case DeleteClient sim_engine (sim_os []) 0 ''a'' (cm2, w3) of
      ((cm4, w4), r4) \<Rightarrow>
    case LoadClients (sim_os [])
           \<lparr>readDir = Inr [(''b'', True), (''default_client'', False)],
            newEnvFor = (\<lambda>name. sim_new)\<rparr> 5 (empty_manager, w4) of
      (((cm5, w5), spawned), r5) \<Rightarrow>
        defaultClient cm2 = ''a'' \<and> r3 = None
        \<and> files w3 ''data/default_client'' = Some ''a''
        \<and> r4 = None \<and> defaultClient cm4 = ''b'' \<and> map fst (clients cm4) = [''b'']
        \<and> files w4 ''data/default_client'' = Some ''a''
        \<and> files w4 ''data/a/state.json'' = None
        \<and> r5 = None \<and> map fst (clients cm5) = [''b''] \<and> defaultClient cm5 = ''a''
        \<and> \<not> default_ok cm5)"
  by (simp add: CreateClient_def NewClient_def sim_new_def empty_manager_def
        empty_world_def Let_def SaveState_def sim_os_def os_WriteFile_def
        GetState_def sim_engine_def Close_def join_paths default_ok_def save_logged_def
        SaveClients_def DeleteClient_def first_key_def os_RemoveAll_def under_def
        LoadClients_def os_ReadFile_def StatusLoggedOut_def StatusConnected_def
        split: prod.splits)

text \<open>
  C4. From an empty registry, with \<open>NewClient\<close> succeeding: creating \<open>work\<close>
  succeeds and makes it the default; creating \<open>work\<close> again fails with
  already-exists and the map still has exactly one entry; deleting \<open>work\<close> succeeds,
  empties the map and clears the default; creating \<open>work\<close> once more succeeds and
  makes it the default again.
\<close>

theorem work_scenario:
  assumes "clients cm = []" and "defaultClient cm = []"
    and "NewClient env1 t1 ''work'' (managerDir cm) = Inr c1"
    and "NewClient env4 t4 ''work'' (managerDir cm) = Inr c4"
  shows "case CreateClient E os env1 t1 ''work'' (cm, w) of (s1, r1) \<Rightarrow>
         case CreateClient E os env2 t2 ''work'' s1 of (s2, r2) \<Rightarrow>
         case DeleteClient E os pick ''work'' s2 of (s3, r3) \<Rightarrow>
         case CreateClient E os env4 t4 ''work'' s3 of (s4, r4) \<Rightarrow>
           r1 = Inr c1 \<and> defaultClient (fst s1) = ''work''
           \<and> r2 = Inl (ErrAlreadyExists ''work'') \<and> length (clients (fst s2)) = 1
           \<and> map fst (clients (fst s2)) = [''work'']
           \<and> r3 = None \<and> clients (fst s3) = [] \<and> defaultClient (fst s3) = []
           \<and> r4 = Inr c4 \<and> defaultClient (fst s4) = ''work''"
proof -
  obtain cm1 w1 r1 where s1: "CreateClient E os env1 t1 ''work'' (cm, w) = ((cm1, w1), r1)"
    by (metis prod.exhaust)
  obtain cm2 w2 r2 where s2: "CreateClient E os env2 t2 ''work'' (cm1, w1) = ((cm2, w2), r2)"
    by (metis prod.exhaust)
  obtain cm3 w3 r3 where s3: "DeleteClient E os pick ''work'' (cm2, w2) = ((cm3, w3), r3)"
    by (metis prod.exhaust)
  obtain cm4 w4 r4 where s4: "CreateClient E os env4 t4 ''work'' (cm3, w3) = ((cm4, w4), r4)"
    by (metis prod.exhaust)
  have cm1: "cm1 = cm\<lparr>clients := [(''work'', c1)], defaultClient := ''work''\<rparr>"
    using CreateClient_manager [of E os env1 t1 "''work''" cm w] s1 assms by simp
  have r1: "r1 = Inr c1"
    using CreateClient_result [of E os env1 t1 "''work''" cm w] s1 assms by simp
  have cm2: "cm2 = cm1"
    using CreateClient_manager [of E os env2 t2 "''work''" cm1 w1] s2 cm1 by simp
  have r2: "r2 = Inl (ErrAlreadyExists ''work'')"
    using CreateClient_result [of E os env2 t2 "''work''" cm1 w1] s2 cm1 by simp
  have cm3: "cm3 = cm\<lparr>clients := [], defaultClient := []\<rparr>"
    using DeleteClient_manager [of E os pick "''work''" cm2 w2] s3 cm2 cm1
    by (simp add: first_key_def)
  have r3: "r3 = None"
    using DeleteClient_result [of E os pick "''work''" cm2 w2] s3 cm2 cm1 by simp
  have cm4: "cm4 = cm\<lparr>clients := [(''work'', c4)], defaultClient := ''work''\<rparr>"
    using CreateClient_manager [of E os env4 t4 "''work''" cm3 w3] s4 cm3 assms by simp
  have r4: "r4 = Inr c4"
    using CreateClient_result [of E os env4 t4 "''work''" cm3 w3] s4 cm3 assms by simp
  have d1: "defaultClient cm1 = ''work''"
    by (simp add: cm1)
  have l2: "length (clients cm2) = 1" and k2: "map fst (clients cm2) = [''work'']"
    by (simp_all add: cm2 cm1)
  have e3: "clients cm3 = []" and d3: "defaultClient cm3 = []"
    by (simp_all add: cm3)
  have d4: "defaultClient cm4 = ''work''"
    by (simp add: cm4)
  show ?thesis
    by (simp add: s1 s2 s3 s4 r1 r2 r3 r4 d1 l2 k2 e3 d3 d4)
qed

theorem work_scenario_witness:
  "clients empty_manager = [] \<and> defaultClient empty_manager = []
   \<and> NewClient sim_new 1 ''work'' (managerDir empty_manager) = Inr (sim_fresh 1)
   \<and> NewClient sim_new 4 ''work'' (managerDir empty_manager) = Inr (sim_fresh 4)
   \<and> (case CreateClient sim_engine (sim_os []) sim_new 1 ''work''
             (empty_manager, empty_world) of (s1, r1) \<Rightarrow>
       case CreateClient sim_engine (sim_os []) sim_new 2 ''work'' s1 of (s2, r2) \<Rightarrow>
       case DeleteClient sim_engine (sim_os []) 0 ''work'' s2 of (s3, r3) \<Rightarrow>
       case CreateClient sim_engine (sim_os []) sim_new 4 ''work'' s3 of (s4, r4) \<Rightarrow>
         r1 = Inr (sim_fresh 1) \<and> defaultClient (fst s1) = ''work''
         \<and> r2 = Inl (ErrAlreadyExists ''work'') \<and> length (clients (fst s2)) = 1
         \<and> map fst (clients (fst s2)) = [''work'']
         \<and> r3 = None \<and> clients (fst s3) = [] \<and> defaultClient (fst s3) = []
         \<and> r4 = Inr (sim_fresh 4) \<and> defaultClient (fst s4) = ''work'')"
proof -
  have h1: "clients empty_manager = []" and h2: "defaultClient empty_manager = []"
    by (simp_all add: empty_manager_def)
  have h3: "NewClient sim_new 1 ''work'' (managerDir empty_manager) = Inr (sim_fresh 1)"
    and h4: "NewClient sim_new 4 ''work'' (managerDir empty_manager) = Inr (sim_fresh 4)"
    by (simp_all add: NewClient_def sim_new_def sim_fresh_def empty_manager_def
          join_paths)
  note run = work_scenario [OF h1 h2 h3 h4, where E = sim_engine and os = "sim_os []"
      and w = empty_world and ?env2.0 = sim_new and ?t2.0 = 2 and pick = 0]
  show ?thesis
    by (rule conjI [OF h1 conjI [OF h2 conjI [OF h3 conjI [OF h4 run]]]])
qed

section \<open>SaveClients\<close>

lemma SaveState_files:
  "files (fst (SaveState E os c w)) = apply_writes (state_write E os c) (files w)"
  by (simp add: SaveState_def os_WriteFile_def state_write_def split: sum.splits option.splits)

lemma save_logged_files:
  "files (save_logged E os c w) = apply_writes (state_write E os c) (files w)"
  by (simp add: save_logged_def Printf_def SaveState_files [symmetric]
        split: prod.splits option.splits)

lemma save_logged_stdout: "stdout (save_logged E os c w) = stdout w @ save_warning E os c"
  by (simp add: save_logged_def save_warning_def Printf_def SaveState_def os_WriteFile_def
        split: sum.splits option.splits)

lemma apply_writes_append: "apply_writes (xs @ ys) f = apply_writes ys (apply_writes xs f)"
  by (induction xs arbitrary: f) auto

lemma apply_writes_other: "p \<notin> fst ` set ws \<Longrightarrow> apply_writes ws f p = f p"
  by (induction ws arbitrary: f) auto

lemma apply_writes_written:
  "(p, d) \<in> set ws \<Longrightarrow> \<exists>d'. (p, d') \<in> set ws \<and> apply_writes ws f p = Some d'"
proof (induction ws arbitrary: f d)
  case Nil
  then show ?case by simp
next
  case (Cons qe ws)
  obtain q e where qe: "qe = (q, e)" by (cases qe)
  show ?case
  proof (cases "p \<in> fst ` set ws")
    case True
    then obtain d0 where "(p, d0) \<in> set ws" by auto
    from Cons.IH [OF this, of "f(q \<mapsto> e)"]
    obtain d' where "(p, d') \<in> set ws" and "apply_writes ws (f(q \<mapsto> e)) p = Some d'"
      by blast
    then have "(p, d') \<in> set ((q, e) # ws) \<and> apply_writes ((q, e) # ws) f p = Some d'"
      by simp
    then show ?thesis
      unfolding qe by (rule exI)
  next
    case False
    with Cons.prems qe have here: "q = p" "e = d"
      by (auto simp add: image_iff)
    from False show ?thesis
      unfolding qe here by (simp add: apply_writes_other)
  qed
qed

lemma apply_writes_last:
  "p \<notin> fst ` set ws2 \<Longrightarrow> apply_writes (ws1 @ (p, d) # ws2) f p = Some d"
  by (simp add: apply_writes_append apply_writes_other)

lemma save_each_files:
  "files (save_each E os cs w)
     = apply_writes (concat (map (\<lambda>(k, c). state_write E os c) cs)) (files w)"
  by (induction cs arbitrary: w) (auto simp add: save_logged_files apply_writes_append)

lemma save_each_stdout:
  "stdout (save_each E os cs w) = stdout w @ concat (map (\<lambda>(k, c). save_warning E os c) cs)"
  by (induction cs arbitrary: w) (auto simp add: save_logged_stdout)

lemma SaveClients_files:
  "files (fst (SaveClients E os cm w))
     = apply_writes (concat (map (\<lambda>(k, c). state_write E os c) (clients cm)) @ marker_write os cm)
         (files w)"
  by (simp add: SaveClients_def Let_def os_WriteFile_def marker_write_def save_each_files
        apply_writes_append split: option.splits)

text \<open>
  C5, as the claim states it, fails: when the default marker cannot be written,
  \<open>SaveClients\<close> returns that failure to its caller.
\<close>

theorem SaveClients_returns_marker_failure:
  "snd (SaveClients sim_engine (sim_os [''data/default_client'']) two_clients empty_world)
     = Some (ErrSaveDefault ''permission denied'')"
  by (simp add: SaveClients_def Let_def os_WriteFile_def sim_os_def two_clients_def
        join_paths)

text \<open>
  C5, amended. For every registry state, \<open>SaveClients\<close> returns a failure exactly
  when the default pointer is not empty and writing the default marker fails. A failure to
  save a session's state is never returned: it prints one warning line and does not keep
  the other sessions from being saved. The files afterwards are the files before with
  these writes applied in order: for each session, whatever the others did, its encoded
  state at its state path when that can be encoded and written; then the marker. So the
  write of every session that can be saved is among them and its state file is there
  afterwards, holding what the pass wrote to that path last; it holds the session's own
  state when no later write of the pass goes to the same path.
\<close>

theorem SaveClients_failures:
  "snd (SaveClients E os cm w) =
     (if defaultClient cm = [] then None
      else map_option ErrSaveDefault
             (writeErr os (filepath_Join (managerDir cm) ''default_client'')))
   \<and> files (fst (SaveClients E os cm w))
       = apply_writes
           (concat (map (\<lambda>(k, c). state_write E os c) (clients cm)) @ marker_write os cm)
           (files w)
   \<and> (\<forall>(k, c) \<in> set (clients cm). \<forall>data.
         marshal os (GetState E c) = Inr data
         \<and> writeErr os (filepath_Join (dataDir c) ''state.json'') = None
       \<longrightarrow> (filepath_Join (dataDir c) ''state.json'', data)
             \<in> set (concat (map (\<lambda>(k, c). state_write E os c) (clients cm)))
           \<and> (\<exists>d. (filepath_Join (dataDir c) ''state.json'', d)
                    \<in> set (concat (map (\<lambda>(k, c). state_write E os c) (clients cm))
                            @ marker_write os cm)
                  \<and> files (fst (SaveClients E os cm w))
                      (filepath_Join (dataDir c) ''state.json'') = Some d))
   \<and> (\<forall>before k c after data.
         clients cm = before @ (k, c) # after
         \<and> marshal os (GetState E c) = Inr data
         \<and> writeErr os (filepath_Join (dataDir c) ''state.json'') = None
         \<and> filepath_Join (dataDir c) ''state.json''
             \<notin> fst ` set (concat (map (\<lambda>(k, c). state_write E os c) after)
                           @ marker_write os cm)
       \<longrightarrow> files (fst (SaveClients E os cm w)) (filepath_Join (dataDir c) ''state.json'')
             = Some data)
   \<and> stdout (fst (SaveClients E os cm w))
       = stdout w @ concat (map (\<lambda>(k, c). save_warning E os c) (clients cm))"
proof -
  let ?writes = "concat (map (\<lambda>(k, c). state_write E os c) (clients cm))"
  have res: "snd (SaveClients E os cm w) =
           (if defaultClient cm = [] then None
            else map_option ErrSaveDefault
                   (writeErr os (filepath_Join (managerDir cm) ''default_client'')))"
    by (simp add: SaveClients_def Let_def os_WriteFile_def split: option.splits)
  have disk: "files (fst (SaveClients E os cm w)) = apply_writes (?writes @ marker_write os cm) (files w)"
    by (rule SaveClients_files)
  have out: "stdout (fst (SaveClients E os cm w))
           = stdout w @ concat (map (\<lambda>(k, c). save_warning E os c) (clients cm))"
    by (simp add: SaveClients_def Let_def os_WriteFile_def save_each_stdout split: option.splits)
  have own: "state_write E os c = [(filepath_Join (dataDir c) ''state.json'', data)]"
    if "marshal os (GetState E c) = Inr data"
      "writeErr os (filepath_Join (dataDir c) ''state.json'') = None" for c data
    using that by (simp add: state_write_def)
  have issued: "(filepath_Join (dataDir c) ''state.json'', data) \<in> set ?writes"
    if "(k, c) \<in> set (clients cm)" "marshal os (GetState E c) = Inr data"
      "writeErr os (filepath_Join (dataDir c) ''state.json'') = None" for k c data
    using that(1) own [OF that(2,3)] by force
  have there: "\<exists>d. (filepath_Join (dataDir c) ''state.json'', d)
                    \<in> set (?writes @ marker_write os cm)
                  \<and> files (fst (SaveClients E os cm w))
                      (filepath_Join (dataDir c) ''state.json'') = Some d"
    if "(k, c) \<in> set (clients cm)" "marshal os (GetState E c) = Inr data"
      "writeErr os (filepath_Join (dataDir c) ''state.json'') = None" for k c data
  proof -
    from issued [OF that]
    have "(filepath_Join (dataDir c) ''state.json'', data) \<in> set (?writes @ marker_write os cm)"
      by simp
    from apply_writes_written [OF this, of "files w"] show ?thesis
      unfolding disk .
  qed
  have last: "files (fst (SaveClients E os cm w)) (filepath_Join (dataDir c) ''state.json'')
             = Some data"
    if split: "clients cm = before @ (k, c) # after"
      and ok: "marshal os (GetState E c) = Inr data"
        "writeErr os (filepath_Join (dataDir c) ''state.json'') = None"
      and later: "filepath_Join (dataDir c) ''state.json''
             \<notin> fst ` set (concat (map (\<lambda>(k, c). state_write E os c) after)
                           @ marker_write os cm)"
    for before k c after data
  proof -
    have "?writes @ marker_write os cm
        = concat (map (\<lambda>(k, c). state_write E os c) before)
          @ (filepath_Join (dataDir c) ''state.json'', data)
          # (concat (map (\<lambda>(k, c). state_write E os c) after) @ marker_write os cm)"
      by (simp add: split own [OF ok])
    moreover have "apply_writes
          (concat (map (\<lambda>(k, c). state_write E os c) before)
           @ (filepath_Join (dataDir c) ''state.json'', data)
           # (concat (map (\<lambda>(k, c). state_write E os c) after) @ marker_write os cm))
          (files w) (filepath_Join (dataDir c) ''state.json'') = Some data"
      by (rule apply_writes_last [OF later])
    ultimately show ?thesis
      unfolding disk by simp
  qed
  from res disk issued there last out show ?thesis
    by blast
qed

theorem SaveClients_failures_witness:
  "snd (SaveClients sim_engine (sim_os [''data/home/state.json'']) two_clients empty_world)
       = None
   \<and> files (fst (SaveClients sim_engine (sim_os [''data/home/state.json'']) two_clients
                   empty_world)) ''data/work/state.json'' = Some ''work:error''
   \<and> files (fst (SaveClients sim_engine (sim_os [''data/home/state.json'']) two_clients
                   empty_world)) ''data/home/state.json'' = None
   \<and> files (fst (SaveClients sim_engine (sim_os [''data/home/state.json'']) two_clients
                   empty_world)) ''data/default_client'' = Some ''home''
   \<and> stdout (fst (SaveClients sim_engine (sim_os [''data/home/state.json'']) two_clients
                    empty_world))
       = [''Warning: Failed to save state for home: failed to write state file: permission denied'']"
proof -
  note run = SaveClients_failures [of sim_engine "sim_os [''data/home/state.json'']"
      two_clients empty_world]
  have writes: "concat (map (\<lambda>(k, c). state_write sim_engine (sim_os [''data/home/state.json'']) c)
                  (clients two_clients))
                @ marker_write (sim_os [''data/home/state.json'']) two_clients
      = [(''data/work/state.json'', ''work:error''), (''data/default_client'', ''home'')]"
    by (simp add: two_clients_def state_write_def marker_write_def sim_os_def join_paths
          sim_client_def GetState_def sim_engine_def StatusError_def)
  have res: "snd (SaveClients sim_engine (sim_os [''data/home/state.json'']) two_clients
                    empty_world) = None"
    using run by (simp add: two_clients_def sim_os_def join_paths)
  have disk: "files (fst (SaveClients sim_engine (sim_os [''data/home/state.json''])
                two_clients empty_world))
      = apply_writes [(''data/work/state.json'', ''work:error''), (''data/default_client'', ''home'')]
          (files empty_world)"
    using run unfolding writes by blast
  have out: "stdout (fst (SaveClients sim_engine (sim_os [''data/home/state.json''])
                two_clients empty_world))
       = [''Warning: Failed to save state for home: failed to write state file: permission denied'']"
    using run
    by (simp add: two_clients_def sim_os_def join_paths sim_client_def GetState_def
          sim_engine_def save_warning_def empty_world_def)
  have work: "files (fst (SaveClients sim_engine (sim_os [''data/home/state.json''])
                two_clients empty_world)) ''data/work/state.json'' = Some ''work:error''"
    unfolding disk by simp
  have home: "files (fst (SaveClients sim_engine (sim_os [''data/home/state.json''])
                two_clients empty_world)) ''data/home/state.json'' = None"
    unfolding disk by (simp add: empty_world_def)
  have marker: "files (fst (SaveClients sim_engine (sim_os [''data/home/state.json''])
                two_clients empty_world)) ''data/default_client'' = Some ''home''"
    unfolding disk by simp
  from res work home marker out show ?thesis
    by simp
qed

text \<open>
  Two sessions may share a directory: the identifiers \<open>a\<close> and \<open>a/.\<close> are different
  keys of the map and both get the directory \<open>data/a\<close>. Both are saved, to the same
  file, which afterwards holds the state of the one saved last.
\<close>

lemma SaveClients_shared_directory:
  "(case CreateClient sim_engine (sim_os []) sim_new 1 ''a'' (empty_manager, empty_world) of
      (s1, r1) \<Rightarrow>
    case CreateClient sim_engine (sim_os []) sim_new 2 ''a/.'' s1 of
      ((cm2, w2), r2) \<Rightarrow>
        map fst (clients cm2) = [''a'', ''a/.'']
        \<and> map (\<lambda>(k, c). dataDir c) (clients cm2) = [''data/a'', ''data/a'']
        \<and> concat (map (\<lambda>(k, c). state_write sim_engine (sim_os []) c) (clients cm2))
            = [(''data/a/state.json'', ''a:logged_out''),
               (''data/a/state.json'', ''a/.:logged_out'')]
        \<and> snd (SaveClients sim_engine (sim_os []) cm2 w2) = None
        \<and> files (fst (SaveClients sim_engine (sim_os []) cm2 w2)) ''data/a/state.json''
            = Some ''a/.:logged_out'')"
  by (simp add: CreateClient_def NewClient_def sim_new_def empty_manager_def
        empty_world_def Let_def SaveState_def sim_os_def os_WriteFile_def
        GetState_def sim_engine_def join_paths save_logged_def
        SaveClients_def state_write_def StatusLoggedOut_def
        split: prod.splits)

end
